theory Spec2Isabelle
  imports Main
begin

section \<open>Python values used by the document pipeline\<close>

text \<open>
  A document record is langchain's \<^verbatim>\<open>Document\<close>: a text and a metadata dictionary.
  Dictionaries are association lists in insertion order, as Python dictionaries keep it;
  metadata values are strings or integers (page numbers and the like).
\<close>

datatype pyval = PyStr string | PyInt int

record document =
  page_content :: string
  metadata :: "(string \<times> pyval) list"

text \<open>
  The exceptions that occur, each with its message. The first five are \<^verbatim>\<open>OSError\<close> and
  its subclasses; \<open>OtherError\<close> is any other subclass of \<^verbatim>\<open>Exception\<close>.
\<close>

datatype exn =
    FileNotFoundError string
  | FileExistsError string
  | NotADirectoryError string
  | PermissionError string
  | OSError string
  | ValueError string
  | KeyError string
  | OtherError string



text \<open>\<^verbatim>\<open>d[k] = v\<close>: an existing key keeps its position, a new key goes last.\<close>

fun dict_set :: "'k \<Rightarrow> 'v \<Rightarrow> ('k \<times> 'v) list \<Rightarrow> ('k \<times> 'v) list" where
  "dict_set k v [] = [(k, v)]"
| "dict_set k v ((k', v') # kvs) =
     (if k' = k then (k', v) # kvs else (k', v') # dict_set k v kvs)"

text \<open>\<^verbatim>\<open>d.update(other)\<close>: the items of \<open>other\<close> are stored one after the other.\<close>

definition dict_update :: "('k \<times> 'v) list \<Rightarrow> ('k \<times> 'v) list \<Rightarrow> ('k \<times> 'v) list" where
  "dict_update d other = fold (\<lambda>(k, v). dict_set k v) other d"

section \<open>Strings and pure paths\<close>

text \<open>\<^verbatim>\<open>str.lower\<close> on the ASCII letters; other characters are left as they are.\<close>

definition lower_char :: "char \<Rightarrow> char" where
  "lower_char c =
     (case map_of (zip ''ABCDEFGHIJKLMNOPQRSTUVWXYZ'' ''abcdefghijklmnopqrstuvwxyz'') c of
        None \<Rightarrow> c
      | Some l \<Rightarrow> l)"

definition lower :: "string \<Rightarrow> string" where
  "lower s = map lower_char s"

text \<open>\<^verbatim>\<open>s.split(sep)\<close> for a one-character separator: empty pieces are kept.\<close>

fun str_split :: "char \<Rightarrow> string \<Rightarrow> string list" where
  "str_split sep [] = [[]]"
| "str_split sep (c # cs) =
     (if c = sep then [] # str_split sep cs
      else (case str_split sep cs of
              [] \<Rightarrow> [[c]]
            | w # ws \<Rightarrow> (c # w) # ws))"

text \<open>\<^verbatim>\<open>sep.join(xs)\<close>.\<close>

fun str_join :: "string \<Rightarrow> string list \<Rightarrow> string" where
  "str_join sep [] = []"
| "str_join sep [x] = x"
| "str_join sep (x # y # ys) = x @ sep @ str_join sep (y # ys)"

text \<open>\<^verbatim>\<open>s.rfind(c)\<close>: the last index of the character, or \<open>-1\<close>.\<close>

definition rfind :: "string \<Rightarrow> char \<Rightarrow> int" where
  "rfind s c =
     (case filter (\<lambda>i. s ! i = c) (rev [0..<length s]) of
        [] \<Rightarrow> - 1
      | i # _ \<Rightarrow> int i)"

text \<open>
  A parsed \<^verbatim>\<open>pathlib\<close> path of the POSIX flavour: the root (empty, one slash or two) and
  the components after it. Parsing drops empty components and single dots; two dots are
  kept.
\<close>

record path =
  root :: string
  tail :: "string list"

definition splitroot :: "string \<Rightarrow> string \<times> string" where
  "splitroot part =
     (if part \<noteq> [] \<and> hd part = CHR ''/'' then
        (let stripped_part = dropWhile (\<lambda>c. c = CHR ''/'') part in
         if length part - length stripped_part = 2 then (''//'', stripped_part)
         else (''/'', stripped_part))
      else ('''', part))"

definition Path :: "string \<Rightarrow> path" where
  "Path s =
     (case splitroot s of
        (r, rel) \<Rightarrow>
          \<lparr>root = r, tail = filter (\<lambda>x. x \<noteq> [] \<and> x \<noteq> ''.'') (str_split CHR ''/'' rel)\<rparr>)"

text \<open>\<^verbatim>\<open>str(path)\<close>: the empty path prints as a dot.\<close>

definition str :: "path \<Rightarrow> string" where
  "str p =
     (if root p \<noteq> [] then root p @ str_join ''/'' (tail p)
      else if tail p = [] then ''.''
      else str_join ''/'' (tail p))"

definition name :: "path \<Rightarrow> string" where
  "name p = (if tail p = [] then [] else last (tail p))"

definition suffix :: "path \<Rightarrow> string" where
  "suffix p =
     (let nm = name p; i = rfind nm CHR ''.''
      in if 0 < i \<and> i < int (length nm) - 1 then drop (nat i) nm else [])"



section \<open>The document processor\<close>

text \<open>
  What a call reads from outside the program: the filesystem queries of \<^verbatim>\<open>pathlib\<close> and
  the third-party loaders. \<open>load cls s\<close> stands for \<^verbatim>\<open>cls(s).load()\<close>, which either
  raises or returns the document records of the file. \<open>iterdir\<close> raises on a path that
  cannot be listed, and \<open>is_file\<close> raises when the entry cannot be examined (a
  permission or a name that is too long: \<^verbatim>\<open>Path.is_file\<close> passes such errors on).
  \<open>exists\<close> is the answer of \<^verbatim>\<open>Path.exists\<close>.
\<close>

datatype loader_class = PyPDFLoader | TextLoader | Docx2txtLoader | UnstructuredMarkdownLoader

record env =
  exists :: "path \<Rightarrow> bool"
  is_file :: "path \<Rightarrow> exn + bool"
  iterdir :: "path \<Rightarrow> exn + path list"
  load :: "loader_class \<Rightarrow> string \<Rightarrow> exn + document list"

text \<open>
  The processor object. \<open>text_splitter\<close> is the \<^verbatim>\<open>split_documents\<close> method of the
  third-party \<^verbatim>\<open>RecursiveCharacterTextSplitter\<close> built by the constructor; its code is
  not part of the program.
\<close>

record document_processor =
  chunk_size :: int
  chunk_overlap :: int
  text_splitter :: "document list \<Rightarrow> exn + document list"

definition supported_extensions :: "(string \<times> loader_class) list" where
  "supported_extensions =
     [(''.pdf'', PyPDFLoader),
      (''.txt'', TextLoader),
      (''.docx'', Docx2txtLoader),
      (''.doc'', UnstructuredMarkdownLoader)]"

text \<open>
  \<^verbatim>\<open>repr\<close> of a string without quotes, backslashes or control characters, and of a list
  of such strings: what the f-string prints for \<^verbatim>\<open>list(self.supported_extensions.keys())\<close>.
\<close>

definition repr_str :: "string \<Rightarrow> string" where
  "repr_str s = [CHR 0x27] @ s @ [CHR 0x27]"

definition repr_list :: "string list \<Rightarrow> string" where
  "repr_list xs = ''['' @ str_join '', '' (map repr_str xs) @ '']''"

text \<open>The body of the loop over the loaded documents.\<close>

definition stamp :: "path \<Rightarrow> string \<Rightarrow> document \<Rightarrow> document" where
  "stamp file_path file_extension doc =
     doc\<lparr>metadata :=
           dict_update (metadata doc)
             [(''source'', PyStr (name file_path)),
              (''file_path'', PyStr (str file_path)),
              (''file_type'', PyStr file_extension)]\<rparr>"

definition load_document :: "env \<Rightarrow> string \<Rightarrow> exn + document list" where
  "load_document e fp =
     (let file_path = Path fp in
      if \<not> exists e file_path then
        Inl (FileNotFoundError (''Document not found: '' @ str file_path))
      else
        let file_extension = lower (suffix file_path) in
        if file_extension \<notin> set (map fst supported_extensions) then
          Inl (ValueError (''Unsupported file type: '' @ file_extension @
                 '', supported types are: '' @ repr_list (map fst supported_extensions)))
        else
          (case map_of supported_extensions file_extension of
             None \<Rightarrow> Inl (KeyError (repr_str file_extension))
           | Some loader_class \<Rightarrow>
               (case load e loader_class (str file_path) of
                  Inl err \<Rightarrow> Inl err
                | Inr documents \<Rightarrow> Inr (map (stamp file_path file_extension) documents))))"

text \<open>
  \<^verbatim>\<open>split_documents\<close>: an empty input returns at once; otherwise the splitter's chunks
  are returned as they are. The statistics computed in between are only logged, and their
  division is guarded by \<^verbatim>\<open>if chunks else 0\<close>, so they add no failure of their own.
\<close>

definition split_documents :: "document_processor \<Rightarrow> document list \<Rightarrow> exn + document list" where
  "split_documents self documents =
     (if documents = [] then Inr []
      else (case text_splitter self documents of
              Inl err \<Rightarrow> Inl err
            | Inr chunks \<Rightarrow> Inr chunks))"

text \<open>
  The loop of \<^verbatim>\<open>process_directory\<close> over the directory entries. The test
  \<^verbatim>\<open>file_path.is_file()\<close> stands before the \<^verbatim>\<open>try\<close>: when it raises, the loop and the
  call end with that error. Only \<^verbatim>\<open>load_document\<close> is inside the \<^verbatim>\<open>try\<close>.
\<close>

fun process_files :: "env \<Rightarrow> path list \<Rightarrow> document list \<Rightarrow> exn + document list" where
  "process_files e [] all_documents = Inr all_documents"
| "process_files e (file_path # rest) all_documents =
     (case is_file e file_path of
        Inl err \<Rightarrow> Inl err
      | Inr regular \<Rightarrow>
          if regular \<and> lower (suffix file_path) \<in> set (map fst supported_extensions) then
            (case load_document e (str file_path) of
               Inr documents \<Rightarrow> process_files e rest (all_documents @ documents)
             | Inl err \<Rightarrow> process_files e rest all_documents)
          else process_files e rest all_documents)"

definition process_directory :: "env \<Rightarrow> string \<Rightarrow> exn + document list" where
  "process_directory e directory_path =
     (let directory = Path directory_path in
      if \<not> exists e directory then
        Inl (FileNotFoundError (''Directory not found: '' @ directory_path))
      else
        (case iterdir e directory of
           Inl err \<Rightarrow> Inl err
         | Inr entries \<Rightarrow> process_files e entries []))"

section \<open>The settings validator\<close>





section \<open>A sample environment\<close>

text \<open>
  A directory \<^verbatim>\<open>docs\<close> with a text file, a PDF that does not parse, a CSV file, a
  subdirectory and a two-page PDF with an upper-case extension. The loaders fill in
  \<^verbatim>\<open>source\<close> (and \<^verbatim>\<open>page\<close> for a PDF), as the third-party loaders do.
\<close>

definition sample_load :: "loader_class \<Rightarrow> string \<Rightarrow> exn + document list" where
  "sample_load cls s =
     (if cls = TextLoader \<and> s = ''docs/a.txt'' then
        Inr [\<lparr>page_content = ''hello'', metadata = [(''source'', PyStr ''docs/a.txt'')]\<rparr>]
      else if cls = PyPDFLoader \<and> s = ''docs/Report.PDF'' then
        Inr [\<lparr>page_content = ''one'',
               metadata = [(''source'', PyStr ''docs/Report.PDF''), (''page'', PyInt 0)]\<rparr>,
             \<lparr>page_content = ''two'',
               metadata = [(''source'', PyStr ''docs/Report.PDF''), (''page'', PyInt 1)]\<rparr>]
      else Inl (OtherError ''cannot parse''))"

definition sample_env :: env where
  "sample_env =
     \<lparr>exists = (\<lambda>p. str p \<in> set [''docs'', ''docs/a.txt'', ''docs/broken.pdf'',
                                    ''docs/notes.csv'', ''docs/sub'', ''docs/Report.PDF'']),
      is_file = (\<lambda>p. Inr (str p \<in> set [''docs/a.txt'', ''docs/broken.pdf'',
                                          ''docs/notes.csv'', ''docs/Report.PDF''])),
      iterdir = (\<lambda>p. if str p = ''docs'' then
                         Inr (map Path [''docs/a.txt'', ''docs/broken.pdf'', ''docs/notes.csv'',
                                        ''docs/sub'', ''docs/Report.PDF''])
                       else Inl (NotADirectoryError (str p))),
      load = sample_load\<rparr>"

text \<open>A PDF without pages: the loader returns no record at all.\<close>

definition empty_env :: env where
  "empty_env =
     \<lparr>exists = (\<lambda>p. str p = ''blank.pdf''),
      is_file = (\<lambda>p. Inr (str p = ''blank.pdf'')),
      iterdir = (\<lambda>p. Inl (NotADirectoryError (str p))),
      load = (\<lambda>cls s. Inr [])\<rparr>"

text \<open>
  A directory with a text file and a link to a file in a directory that the process may
  not search: examining the link is refused. In this run \<open>exists\<close> is asked about the
  directory and the text file only.
\<close>

definition locked_env :: env where
  "locked_env =
     \<lparr>exists = (\<lambda>p. str p \<in> set [''docs'', ''docs/a.txt'']),
      is_file = (\<lambda>p. if str p = ''docs/link.txt'' then
                         Inl (PermissionError
                               (''[Errno 13] Permission denied: '' @ repr_str ''docs/link.txt''))
                       else Inr (str p = ''docs/a.txt'')),
      iterdir = (\<lambda>p. if str p = ''docs'' then Inr (map Path [''docs/a.txt'', ''docs/link.txt''])
                       else Inl (NotADirectoryError (str p))),
      load = sample_load\<rparr>"

section \<open>A sample filesystem\<close>

















section \<open>Properties of the document processor\<close>

lemmas path_defs =
  Path_def splitroot_def str_def name_def suffix_def rfind_def lower_def lower_char_def

lemmas table_defs = supported_extensions_def repr_list_def repr_str_def

text \<open>
  C7. \<^verbatim>\<open>split_documents\<close> on the empty sequence returns the empty sequence and raises
  nothing, whatever the splitter is.
\<close>

theorem split_documents_empty: "split_documents self [] = Inr []"
  by (simp add: split_documents_def)

text \<open>
  C2. When the path does not exist, \<^verbatim>\<open>load_document\<close> raises
  \<^verbatim>\<open>FileNotFoundError\<close>, and so does \<^verbatim>\<open>process_directory\<close> for a directory path that
  does not exist; an error result carries no records.
\<close>

theorem not_found:
  "(\<not> exists e (Path fp) \<longrightarrow>
      load_document e fp = Inl (FileNotFoundError (''Document not found: '' @ str (Path fp))))
   \<and> (\<not> exists e (Path dp) \<longrightarrow>
      process_directory e dp = Inl (FileNotFoundError (''Directory not found: '' @ dp)))"
  by (simp add: load_document_def process_directory_def)

theorem not_found_witness:
  "\<not> exists sample_env (Path ''docs/missing.txt'')
   \<and> load_document sample_env ''docs/missing.txt'' =
       Inl (FileNotFoundError ''Document not found: docs/missing.txt'')
   \<and> \<not> exists sample_env (Path ''./nowhere/'')
   \<and> process_directory sample_env ''./nowhere/'' =
       Inl (FileNotFoundError ''Directory not found: ./nowhere/'')"
  using not_found [of sample_env "''docs/missing.txt''" "''./nowhere/''"]
  by (simp add: sample_env_def path_defs)

subsection \<open>Dictionaries and the extension table\<close>

lemma map_of_dict_set:
  "map_of (dict_set k v d) k' = (if k' = k then Some v else map_of d k')"
  by (induction d) auto

lemma keys_dict_set: "set (map fst d) \<subseteq> set (map fst (dict_set k v d))"
proof
  fix k'
  assume "k' \<in> set (map fst d)"
  then have "map_of d k' \<noteq> None"
    by (simp add: map_of_eq_None_iff)
  then have "map_of (dict_set k v d) k' \<noteq> None"
    by (simp add: map_of_dict_set)
  then show "k' \<in> set (map fst (dict_set k v d))"
    by (simp add: map_of_eq_None_iff)
qed

lemma keys_dict_update3:
  "set (map fst d) \<subseteq> set (map fst (dict_update d [(a, x), (b, y), (c, z)]))"
proof -
  have "set (map fst d) \<subseteq> set (map fst (dict_set a x d))"
    by (rule keys_dict_set)
  also have "\<dots> \<subseteq> set (map fst (dict_set b y (dict_set a x d)))"
    by (rule keys_dict_set)
  also have "\<dots> \<subseteq> set (map fst (dict_set c z (dict_set b y (dict_set a x d))))"
    by (rule keys_dict_set)
  finally show ?thesis
    by (simp add: dict_update_def)
qed

lemma map_of_stamp:
  "map_of (metadata (stamp p ext doc)) k =
     (if k = ''file_type'' then Some (PyStr ext)
      else if k = ''file_path'' then Some (PyStr (str p))
      else if k = ''source'' then Some (PyStr (name p))
      else map_of (metadata doc) k)"
  by (simp add: stamp_def dict_update_def map_of_dict_set)

lemma keys_stamp: "set (map fst (metadata doc)) \<subseteq> set (map fst (metadata (stamp p ext doc)))"
  unfolding stamp_def using keys_dict_update3 by simp

lemma page_content_stamp: "page_content (stamp p ext doc) = page_content doc"
  by (simp add: stamp_def)

lemma supported_lookup:
  "map_of supported_extensions ext =
     (if ext = ''.pdf'' then Some PyPDFLoader
      else if ext = ''.txt'' then Some TextLoader
      else if ext = ''.docx'' then Some Docx2txtLoader
      else if ext = ''.doc'' then Some UnstructuredMarkdownLoader
      else None)"
  by (simp add: supported_extensions_def)

lemma supported_keys: "map fst supported_extensions = [''.pdf'', ''.txt'', ''.docx'', ''.doc'']"
  by (simp add: supported_extensions_def)

lemma supported_message:
  "repr_list (map fst supported_extensions) = ''['.pdf', '.txt', '.docx', '.doc']''"
  by (simp add: table_defs)

lemma lookup_in_keys:
  "map_of supported_extensions ext = Some cls \<Longrightarrow> ext \<in> set (map fst supported_extensions)"
  by (metis map_of_eq_None_iff option.distinct(1) set_map)

lemma load_document_supported:
  assumes "exists e (Path fp)"
    and "map_of supported_extensions (lower (suffix (Path fp))) = Some cls"
  shows "load_document e fp =
     (case load e cls (str (Path fp)) of
        Inl err \<Rightarrow> Inl err
      | Inr documents \<Rightarrow> Inr (map (stamp (Path fp) (lower (suffix (Path fp)))) documents))"
  using assms lookup_in_keys [OF assms(2)] by (simp add: load_document_def Let_def)

subsection \<open>Loading one file\<close>

text \<open>
  C3. For a path that exists and whose lower-cased extension is not a key of the table,
  \<^verbatim>\<open>load_document\<close> raises \<^verbatim>\<open>ValueError\<close>, and the message lists the four supported
  extensions \<^verbatim>\<open>.pdf\<close>, \<^verbatim>\<open>.txt\<close>, \<^verbatim>\<open>.docx\<close>, \<^verbatim>\<open>.doc\<close> and no other.
\<close>

theorem unsupported_type:
  assumes "exists e (Path fp)"
    and "lower (suffix (Path fp)) \<notin> set (map fst supported_extensions)"
  shows "load_document e fp =
     Inl (ValueError (''Unsupported file type: '' @ lower (suffix (Path fp)) @
            '', supported types are: ['.pdf', '.txt', '.docx', '.doc']''))"
  using assms by (simp add: load_document_def Let_def supported_message)

theorem unsupported_type_witness:
  "exists sample_env (Path ''docs/notes.csv'')
   \<and> lower (suffix (Path ''docs/notes.csv'')) \<notin> set (map fst supported_extensions)
   \<and> load_document sample_env ''docs/notes.csv'' =
       Inl (ValueError
         ''Unsupported file type: .csv, supported types are: ['.pdf', '.txt', '.docx', '.doc']'')"
proof -
  have ex: "exists sample_env (Path ''docs/notes.csv'')"
    by (simp add: sample_env_def path_defs)
  have ext: "lower (suffix (Path ''docs/notes.csv'')) = ''.csv''"
    by (simp add: path_defs)
  have un: "lower (suffix (Path ''docs/notes.csv'')) \<notin> set (map fst supported_extensions)"
    by (simp add: ext supported_keys)
  show ?thesis
    using ex un unsupported_type [OF ex un] by (simp add: ext)
qed

text \<open>
  C4. The table has exactly the four entries \<^verbatim>\<open>.pdf\<close>, \<^verbatim>\<open>.txt\<close>, \<^verbatim>\<open>.docx\<close> and
  \<^verbatim>\<open>.doc\<close>, the last one mapped to the Markdown loader; for an existing path whose
  lower-cased extension is a key, \<^verbatim>\<open>load_document\<close> runs the loader the table gives
  for it, passes its failure on, and stamps every record it returns.
\<close>

theorem loader_selected_by_extension:
  "(\<forall>ext. map_of supported_extensions ext =
       (if ext = ''.pdf'' then Some PyPDFLoader
        else if ext = ''.txt'' then Some TextLoader
        else if ext = ''.docx'' then Some Docx2txtLoader
        else if ext = ''.doc'' then Some UnstructuredMarkdownLoader
        else None))
   \<and> length supported_extensions = 4
   \<and> (exists e (Path fp) \<longrightarrow>
      map_of supported_extensions (lower (suffix (Path fp))) = Some cls \<longrightarrow>
      load_document e fp =
        (case load e cls (str (Path fp)) of
           Inl err \<Rightarrow> Inl err
         | Inr documents \<Rightarrow> Inr (map (stamp (Path fp) (lower (suffix (Path fp)))) documents)))"
proof (intro conjI allI impI)
  fix ext
  show "map_of supported_extensions ext =
       (if ext = ''.pdf'' then Some PyPDFLoader
        else if ext = ''.txt'' then Some TextLoader
        else if ext = ''.docx'' then Some Docx2txtLoader
        else if ext = ''.doc'' then Some UnstructuredMarkdownLoader
        else None)"
    by (rule supported_lookup)
next
  show "length supported_extensions = 4"
    by (simp add: supported_extensions_def)
next
  assume "exists e (Path fp)"
    and "map_of supported_extensions (lower (suffix (Path fp))) = Some cls"
  then show "load_document e fp =
        (case load e cls (str (Path fp)) of
           Inl err \<Rightarrow> Inl err
         | Inr documents \<Rightarrow> Inr (map (stamp (Path fp) (lower (suffix (Path fp)))) documents))"
    by (rule load_document_supported)
qed

theorem loader_selected_by_extension_witness:
  "exists sample_env (Path ''docs/Report.PDF'')
   \<and> map_of supported_extensions (lower (suffix (Path ''docs/Report.PDF''))) = Some PyPDFLoader
   \<and> map_of supported_extensions ''.doc'' = Some UnstructuredMarkdownLoader
   \<and> load_document sample_env ''docs/Report.PDF'' =
       Inr [\<lparr>page_content = ''one'',
              metadata = [(''source'', PyStr ''Report.PDF''), (''page'', PyInt 0),
                          (''file_path'', PyStr ''docs/Report.PDF''),
                          (''file_type'', PyStr ''.pdf'')]\<rparr>,
            \<lparr>page_content = ''two'',
              metadata = [(''source'', PyStr ''Report.PDF''), (''page'', PyInt 1),
                          (''file_path'', PyStr ''docs/Report.PDF''),
                          (''file_type'', PyStr ''.pdf'')]\<rparr>]"
proof -
  have ex: "exists sample_env (Path ''docs/Report.PDF'')"
    by (simp add: sample_env_def path_defs)
  have ext: "lower (suffix (Path ''docs/Report.PDF'')) = ''.pdf''"
    by (simp add: path_defs)
  have sel: "map_of supported_extensions (lower (suffix (Path ''docs/Report.PDF''))) = Some PyPDFLoader"
    by (simp add: ext supported_extensions_def)
  have p: "str (Path ''docs/Report.PDF'') = ''docs/Report.PDF''"
    by (simp add: path_defs)
  have n: "name (Path ''docs/Report.PDF'') = ''Report.PDF''"
    by (simp add: path_defs)
  have ld: "load sample_env PyPDFLoader ''docs/Report.PDF'' =
      Inr [\<lparr>page_content = ''one'',
               metadata = [(''source'', PyStr ''docs/Report.PDF''), (''page'', PyInt 0)]\<rparr>,
             \<lparr>page_content = ''two'',
               metadata = [(''source'', PyStr ''docs/Report.PDF''), (''page'', PyInt 1)]\<rparr>]"
    by (simp add: sample_env_def sample_load_def)
  have doc: "map_of supported_extensions ''.doc'' = Some UnstructuredMarkdownLoader"
    by (simp add: supported_extensions_def)
  from loader_selected_by_extension [of sample_env "''docs/Report.PDF''" PyPDFLoader] ex sel
  have "load_document sample_env ''docs/Report.PDF'' =
        (case load sample_env PyPDFLoader (str (Path ''docs/Report.PDF'')) of
           Inl err \<Rightarrow> Inl err
         | Inr documents \<Rightarrow>
             Inr (map (stamp (Path ''docs/Report.PDF'') (lower (suffix (Path ''docs/Report.PDF''))))
                    documents))"
    by blast
  then have "load_document sample_env ''docs/Report.PDF'' =
       Inr [\<lparr>page_content = ''one'',
              metadata = [(''source'', PyStr ''Report.PDF''), (''page'', PyInt 0),
                          (''file_path'', PyStr ''docs/Report.PDF''),
                          (''file_type'', PyStr ''.pdf'')]\<rparr>,
            \<lparr>page_content = ''two'',
              metadata = [(''source'', PyStr ''Report.PDF''), (''page'', PyInt 1),
                          (''file_path'', PyStr ''docs/Report.PDF''),
                          (''file_type'', PyStr ''.pdf'')]\<rparr>]"
    by (simp add: p n ext ld stamp_def dict_update_def)
  with ex sel doc show ?thesis by simp
qed

text \<open>
  C5, as the code has it. When \<^verbatim>\<open>load_document\<close> succeeds, its records are the loader's
  records, one for one and with the same text, so there are as many as the loader returned,
  possibly none; each has \<^verbatim>\<open>source\<close> set to the file's name, \<^verbatim>\<open>file_path\<close> to
  \<^verbatim>\<open>str(Path(file_path))\<close>, the path as \<^verbatim>\<open>pathlib\<close> prints it, and \<^verbatim>\<open>file_type\<close> to
  the lower-cased extension; every key the loader put in the metadata is still there, and
  the values of the other keys are the loader's.
\<close>

theorem load_document_stamps_metadata:
  assumes "load_document e fp = Inr docs"
  shows "\<exists>cls loaded.
     map_of supported_extensions (lower (suffix (Path fp))) = Some cls
     \<and> load e cls (str (Path fp)) = Inr loaded
     \<and> length docs = length loaded
     \<and> (\<forall>i<length docs.
          page_content (docs ! i) = page_content (loaded ! i)
          \<and> map_of (metadata (docs ! i)) ''source'' = Some (PyStr (name (Path fp)))
          \<and> map_of (metadata (docs ! i)) ''file_path'' = Some (PyStr (str (Path fp)))
          \<and> map_of (metadata (docs ! i)) ''file_type'' = Some (PyStr (lower (suffix (Path fp))))
          \<and> set (map fst (metadata (loaded ! i))) \<subseteq> set (map fst (metadata (docs ! i)))
          \<and> (\<forall>k. k \<notin> {''source'', ''file_path'', ''file_type''} \<longrightarrow>
                 map_of (metadata (docs ! i)) k = map_of (metadata (loaded ! i)) k))"
proof -
  from assms obtain cls loaded where
    sel: "map_of supported_extensions (lower (suffix (Path fp))) = Some cls" and
    ld: "load e cls (str (Path fp)) = Inr loaded" and
    docs: "docs = map (stamp (Path fp) (lower (suffix (Path fp)))) loaded"
    by (auto simp add: load_document_def Let_def split: if_splits option.splits sum.splits)
  have "\<forall>i<length docs.
          page_content (docs ! i) = page_content (loaded ! i)
          \<and> map_of (metadata (docs ! i)) ''source'' = Some (PyStr (name (Path fp)))
          \<and> map_of (metadata (docs ! i)) ''file_path'' = Some (PyStr (str (Path fp)))
          \<and> map_of (metadata (docs ! i)) ''file_type'' = Some (PyStr (lower (suffix (Path fp))))
          \<and> set (map fst (metadata (loaded ! i))) \<subseteq> set (map fst (metadata (docs ! i)))
          \<and> (\<forall>k. k \<notin> {''source'', ''file_path'', ''file_type''} \<longrightarrow>
                 map_of (metadata (docs ! i)) k = map_of (metadata (loaded ! i)) k)"
    using keys_stamp by (simp add: docs map_of_stamp page_content_stamp)
  with sel ld docs show ?thesis by simp
qed

theorem load_document_stamps_metadata_witness:
  "load_document sample_env ''./docs/a.txt'' =
     Inr [\<lparr>page_content = ''hello'',
            metadata = [(''source'', PyStr ''a.txt''), (''file_path'', PyStr ''docs/a.txt''),
                        (''file_type'', PyStr ''.txt'')]\<rparr>]
   \<and> (\<exists>cls loaded.
         map_of supported_extensions (lower (suffix (Path ''./docs/a.txt''))) = Some cls
         \<and> load sample_env cls (str (Path ''./docs/a.txt'')) = Inr loaded
         \<and> length loaded = 1
         \<and> page_content (loaded ! 0) = ''hello''
         \<and> set (map fst (metadata (loaded ! 0))) \<subseteq> {''source'', ''file_path'', ''file_type''})"
proof -
  let ?d = "\<lparr>page_content = ''hello'',
            metadata = [(''source'', PyStr ''a.txt''), (''file_path'', PyStr ''docs/a.txt''),
                        (''file_type'', PyStr ''.txt'')]\<rparr>"
  have h: "load_document sample_env ''./docs/a.txt'' = Inr [?d]"
    by (simp add: load_document_def Let_def sample_env_def sample_load_def path_defs
        supported_extensions_def stamp_def dict_update_def)
  from load_document_stamps_metadata [OF h] obtain cls loaded where
    sel: "map_of supported_extensions (lower (suffix (Path ''./docs/a.txt''))) = Some cls" and
    ld: "load sample_env cls (str (Path ''./docs/a.txt'')) = Inr loaded" and
    len: "length [?d] = length loaded" and
    each: "\<forall>i<length [?d].
          page_content ([?d] ! i) = page_content (loaded ! i)
          \<and> map_of (metadata ([?d] ! i)) ''source'' = Some (PyStr (name (Path ''./docs/a.txt'')))
          \<and> map_of (metadata ([?d] ! i)) ''file_path'' = Some (PyStr (str (Path ''./docs/a.txt'')))
          \<and> map_of (metadata ([?d] ! i)) ''file_type'' =
              Some (PyStr (lower (suffix (Path ''./docs/a.txt''))))
          \<and> set (map fst (metadata (loaded ! i))) \<subseteq> set (map fst (metadata ([?d] ! i)))
          \<and> (\<forall>k. k \<notin> {''source'', ''file_path'', ''file_type''} \<longrightarrow>
                 map_of (metadata ([?d] ! i)) k = map_of (metadata (loaded ! i)) k)"
    by blast
  from each have "page_content (loaded ! 0) = ''hello''"
    and "set (map fst (metadata (loaded ! 0))) \<subseteq> {''source'', ''file_path'', ''file_type''}"
    by simp_all
  with h sel ld len show ?thesis
    by simp
qed

text \<open>
  C5, as stated, fails twice. A successful call returns no record when the loader returns
  none, so there need not be one or more. And the \<^verbatim>\<open>file_path\<close> stamped for the given
  string \<^verbatim>\<open>./docs/a.txt\<close> is \<^verbatim>\<open>docs/a.txt\<close>, not the string that was given.
\<close>

theorem load_document_empty_or_normalised:
  "load_document empty_env ''blank.pdf'' = Inr []
   \<and> load_document sample_env ''./docs/a.txt'' =
       Inr [\<lparr>page_content = ''hello'',
              metadata = [(''source'', PyStr ''a.txt''), (''file_path'', PyStr ''docs/a.txt''),
                          (''file_type'', PyStr ''.txt'')]\<rparr>]
   \<and> ''docs/a.txt'' \<noteq> ''./docs/a.txt''"
  by (simp add: load_document_def Let_def empty_env_def sample_env_def sample_load_def path_defs
      supported_extensions_def stamp_def dict_update_def)

text \<open>
  C10. The existence test comes first: for a path that does not exist the result is
  \<^verbatim>\<open>FileNotFoundError\<close> and never \<^verbatim>\<open>ValueError\<close>, whatever the extension is; hence a
  \<^verbatim>\<open>ValueError\<close> from \<^verbatim>\<open>load_document\<close> means that the path exists.
\<close>

theorem existence_checked_first:
  "(\<not> exists e (Path fp) \<longrightarrow>
      load_document e fp = Inl (FileNotFoundError (''Document not found: '' @ str (Path fp)))
      \<and> (\<forall>msg. load_document e fp \<noteq> Inl (ValueError msg)))
   \<and> (load_document e fp = Inl (ValueError msg') \<longrightarrow> exists e (Path fp))"
  by (auto simp add: load_document_def Let_def split: if_splits option.splits sum.splits)

theorem existence_checked_first_witness:
  "\<not> exists sample_env (Path ''docs/missing.csv'')
   \<and> lower (suffix (Path ''docs/missing.csv'')) \<notin> set (map fst supported_extensions)
   \<and> load_document sample_env ''docs/missing.csv'' =
       Inl (FileNotFoundError ''Document not found: docs/missing.csv'')
   \<and> load_document sample_env ''docs/notes.csv'' =
       Inl (ValueError
         ''Unsupported file type: .csv, supported types are: ['.pdf', '.txt', '.docx', '.doc']'')
   \<and> exists sample_env (Path ''docs/notes.csv'')"
proof -
  have missing: "\<not> exists sample_env (Path ''docs/missing.csv'')"
    by (simp add: sample_env_def path_defs)
  have ext: "lower (suffix (Path ''docs/missing.csv'')) \<notin> set (map fst supported_extensions)"
    by (simp add: path_defs supported_extensions_def)
  have p: "str (Path ''docs/missing.csv'') = ''docs/missing.csv''"
    by (simp add: path_defs)
  have csv: "load_document sample_env ''docs/notes.csv'' =
       Inl (ValueError
         ''Unsupported file type: .csv, supported types are: ['.pdf', '.txt', '.docx', '.doc']'')"
    by (simp add: load_document_def Let_def sample_env_def path_defs table_defs)
  from existence_checked_first [of sample_env "''docs/missing.csv''"] missing
  have nf: "load_document sample_env ''docs/missing.csv'' =
       Inl (FileNotFoundError ''Document not found: docs/missing.csv'')"
    by (simp add: p)
  from existence_checked_first [of sample_env "''docs/notes.csv''"] csv
  have "exists sample_env (Path ''docs/notes.csv'')"
    by blast
  with missing ext nf csv show ?thesis
    by simp
qed

subsection \<open>Loading a directory\<close>

lemma process_files_concat:
  assumes "\<forall>f\<in>set entries. \<exists>regular. is_file e f = Inr regular"
  shows "process_files e entries acc =
     Inr (acc @ concat (map (\<lambda>f. case load_document e (str f) of Inr ds \<Rightarrow> ds | Inl err \<Rightarrow> [])
                    (filter (\<lambda>f. is_file e f = Inr True
                                 \<and> lower (suffix f) \<in> set (map fst supported_extensions))
                       entries)))"
  using assms
proof (induction entries arbitrary: acc)
  case Nil
  then show ?case by simp
next
  case (Cons f entries)
  from Cons.prems obtain regular where f: "is_file e f = Inr regular"
    by auto
  from Cons.prems have rest: "\<forall>f\<in>set entries. \<exists>regular. is_file e f = Inr regular"
    by simp
  show ?case
    using f Cons.IH [OF rest] by (cases regular) (simp_all split: sum.splits)
qed

text \<open>
  C6, as the code has it. For a directory that exists, whose listing succeeds and whose
  entries can each be examined by \<^verbatim>\<open>is_file\<close>, \<^verbatim>\<open>process_directory\<close> does not fail: a
  file whose \<^verbatim>\<open>load_document\<close> call raises contributes nothing, and the result is the
  concatenation, in the order of the listing, of the records of the files that loaded
  (regular files with a supported extension).
\<close>

theorem process_directory_skips_failures:
  assumes "exists e (Path dp)" and "iterdir e (Path dp) = Inr entries"
    and "\<forall>f\<in>set entries. \<exists>regular. is_file e f = Inr regular"
  shows "process_directory e dp =
     Inr (concat (map (\<lambda>f. case load_document e (str f) of Inr ds \<Rightarrow> ds | Inl err \<Rightarrow> [])
                    (filter (\<lambda>f. is_file e f = Inr True
                                 \<and> lower (suffix f) \<in> set (map fst supported_extensions))
                       entries)))"
  using assms by (simp add: process_directory_def process_files_concat)

theorem process_directory_skips_failures_witness:
  "exists sample_env (Path ''docs'')
   \<and> iterdir sample_env (Path ''docs'') =
       Inr (map Path [''docs/a.txt'', ''docs/broken.pdf'', ''docs/notes.csv'', ''docs/sub'',
                      ''docs/Report.PDF''])
   \<and> list_all (\<lambda>f. is_file sample_env f = Inr True \<or> is_file sample_env f = Inr False)
        (map Path [''docs/a.txt'', ''docs/broken.pdf'', ''docs/notes.csv'', ''docs/sub'',
                   ''docs/Report.PDF''])
   \<and> load_document sample_env ''docs/broken.pdf'' = Inl (OtherError ''cannot parse'')
   \<and> process_directory sample_env ''docs'' =
       Inr [\<lparr>page_content = ''hello'',
              metadata = [(''source'', PyStr ''a.txt''), (''file_path'', PyStr ''docs/a.txt''),
                          (''file_type'', PyStr ''.txt'')]\<rparr>,
            \<lparr>page_content = ''one'',
              metadata = [(''source'', PyStr ''Report.PDF''), (''page'', PyInt 0),
                          (''file_path'', PyStr ''docs/Report.PDF''),
                          (''file_type'', PyStr ''.pdf'')]\<rparr>,
            \<lparr>page_content = ''two'',
              metadata = [(''source'', PyStr ''Report.PDF''), (''page'', PyInt 1),
                          (''file_path'', PyStr ''docs/Report.PDF''),
                          (''file_type'', PyStr ''.pdf'')]\<rparr>]"
proof -
  let ?entries = "map Path [''docs/a.txt'', ''docs/broken.pdf'', ''docs/notes.csv'', ''docs/sub'',
                      ''docs/Report.PDF'']"
  have ex: "exists sample_env (Path ''docs'')"
    by (simp add: sample_env_def path_defs)
  have it: "iterdir sample_env (Path ''docs'') = Inr ?entries"
    by (simp add: sample_env_def path_defs)
  have answers: "list_all (\<lambda>f. is_file sample_env f = Inr True \<or> is_file sample_env f = Inr False)
      ?entries"
    by (simp add: sample_env_def path_defs)
  then have examined: "\<forall>f\<in>set ?entries. \<exists>regular. is_file sample_env f = Inr regular"
    unfolding list_all_iff by blast
  have broken: "load_document sample_env ''docs/broken.pdf'' = Inl (OtherError ''cannot parse'')"
    by (simp add: load_document_def Let_def sample_env_def sample_load_def path_defs
        supported_extensions_def)
  have "process_directory sample_env ''docs'' =
       Inr [\<lparr>page_content = ''hello'',
              metadata = [(''source'', PyStr ''a.txt''), (''file_path'', PyStr ''docs/a.txt''),
                          (''file_type'', PyStr ''.txt'')]\<rparr>,
            \<lparr>page_content = ''one'',
              metadata = [(''source'', PyStr ''Report.PDF''), (''page'', PyInt 0),
                          (''file_path'', PyStr ''docs/Report.PDF''),
                          (''file_type'', PyStr ''.pdf'')]\<rparr>,
            \<lparr>page_content = ''two'',
              metadata = [(''source'', PyStr ''Report.PDF''), (''page'', PyInt 1),
                          (''file_path'', PyStr ''docs/Report.PDF''),
                          (''file_type'', PyStr ''.pdf'')]\<rparr>]"
    using process_directory_skips_failures [OF ex it examined]
    by (simp add: load_document_def Let_def sample_env_def sample_load_def path_defs
        supported_extensions_def stamp_def dict_update_def)
  with ex it answers broken show ?thesis
    by simp
qed

text \<open>
  C6, as stated, fails: the directory exists and is listed, the text file loads, and then
  \<^verbatim>\<open>is_file\<close> on the next entry raises \<^verbatim>\<open>PermissionError\<close>; that is outside the
  \<^verbatim>\<open>try\<close>, so the whole call fails because of one entry and the record already loaded is
  lost.
\<close>

theorem process_directory_fails_on_is_file:
  "exists locked_env (Path ''docs'')
   \<and> iterdir locked_env (Path ''docs'') = Inr (map Path [''docs/a.txt'', ''docs/link.txt''])
   \<and> load_document locked_env ''docs/a.txt'' =
       Inr [\<lparr>page_content = ''hello'',
              metadata = [(''source'', PyStr ''a.txt''), (''file_path'', PyStr ''docs/a.txt''),
                          (''file_type'', PyStr ''.txt'')]\<rparr>]
   \<and> process_directory locked_env ''docs'' =
       Inl (PermissionError (''[Errno 13] Permission denied: '' @ repr_str ''docs/link.txt''))"
  by (simp add: process_directory_def load_document_def Let_def locked_env_def sample_load_def
      path_defs table_defs stamp_def dict_update_def)

section \<open>Properties of the settings validator\<close>

subsection \<open>Ancestors\<close>







subsection \<open>What any operating system gives\<close>





subsection \<open>The sample filesystem\<close>










subsection \<open>The validator\<close>




end
